theory Spec2Isabelle
  imports Main "HOL-Library.Word"
begin

section \<open>Token storage (src/services/tokenStorage.ts)\<close>

text \<open>
  The interface \<open>TokenData\<close>. Optional fields are options; numbers are the integer
  millisecond timestamps, lifetimes and identifiers the program handles. JavaScript numbers
  are IEEE doubles: on integers of magnitude at most \<open>2^53 - 1\<close> (\<open>safe_integer\<close> below,
  \<open>Number.isSafeInteger\<close>) their sums and products are exact as long as the result is such
  an integer again, and \<open>JSON\<close> writes and reads them unchanged. The model computes on
  \<open>int\<close> and agrees with the program on that range; non-integral numbers, integers beyond
  it, NaN and the infinities are outside the model, and a statement about a computed
  timestamp carries the range as a hypothesis.
\<close>

record TokenData =
  access_token :: string
  refresh_token :: "string option"
  expires_at :: "int option"
  user_id :: "int option"
  shop_id :: "int option"
  shop_name :: "string option"

text \<open>The argument of \<open>saveTokens\<close>: \<open>TokenData & { expires_in?: number }\<close>.\<close>

record TokenUpdate = TokenData +
  expires_in :: "int option"

text \<open>
  JavaScript truthiness of an optional number and of an optional string, as used by
  \<open>if (tokens.expires_in)\<close>, \<open>tokens.expires_at && ...\<close> and \<open>?.refresh_token\<close>:
  \<open>undefined\<close>, \<open>0\<close> and the empty string are falsy.
\<close>

definition truthy_num :: "int option \<Rightarrow> bool" where
  "truthy_num x = (case x of None \<Rightarrow> False | Some n \<Rightarrow> n \<noteq> 0)"

definition truthy_str :: "string option \<Rightarrow> bool" where
  "truthy_str x = (case x of None \<Rightarrow> False | Some s \<Rightarrow> s \<noteq> [])"

definition safe_integer :: "int \<Rightarrow> bool" where
  "safe_integer x = (- 9007199254740991 \<le> x \<and> x \<le> 9007199254740991)"

text \<open>
  The \<open>code\<close> of an exception raised by a call into \<open>fs\<close>. The program distinguishes
  \<open>EROFS\<close> and \<open>EACCES\<close> from every other error; \<open>EOTHER\<close> stands for any other one
  (ENOSPC, EIO, EPERM, EISDIR, ...).
\<close>

datatype fs_error = EROFS | EACCES | EOTHER

text \<open>
  What \<open>JSON.parse(fs.readFileSync(tokenFilePath))\<close> makes of the token file: text that
  does not parse (\<open>JSON.parse\<close> raises a SyntaxError, which has no \<open>code\<close>), or an object
  with the fields of \<open>TokenData\<close> (one without \<open>access_token\<close> has the empty string
  there, which is as falsy). \<open>JSON.stringify\<close> followed by \<open>JSON.parse\<close> gives back the
  fields written, so a saved record is stored as itself.
\<close>

datatype file_content = Unparsable | Json TokenData

text \<open>
  The singleton \<open>TokenStorage\<close> together with the file it owns: the private flag
  \<open>fileStorageEnabled\<close> and the content of \<open>tokenFilePath\<close> on disk (\<open>None\<close> when
  \<open>fs.existsSync\<close> is false). A call into \<open>fs\<close> that may raise takes the exception it
  raises, if any, as an argument (\<open>None\<close>: the call succeeds); \<open>Date.now()\<close> is an argument
  too. A write that raises leaves the file as it was.

  A method returns \<open>Inr\<close> of its value, or \<open>Inl\<close> of the exception that leaves it.
\<close>

record TokenStorage =
  fileStorageEnabled :: bool
  tokenFile :: "file_content option"

definition newExpiresAt :: "int \<Rightarrow> ('a TokenUpdate_scheme) \<Rightarrow> int" where
  "newExpiresAt now tokens =
     (if truthy_num (expires_in tokens) then
        (case expires_in tokens of Some n \<Rightarrow> now + n * 1000 | None \<Rightarrow> now)
      else if truthy_num (expires_at tokens) then
        (case expires_at tokens of Some e \<Rightarrow> e | None \<Rightarrow> now)
      else now + 60 * 60 * 1000)"

definition tokensToSave :: "int \<Rightarrow> TokenUpdate \<Rightarrow> TokenData" where
  "tokensToSave now tokens =
     \<lparr> access_token = access_token tokens,
       refresh_token = refresh_token tokens,
       expires_at = Some (newExpiresAt now tokens),
       user_id = user_id tokens,
       shop_id = shop_id tokens,
       shop_name = shop_name tokens \<rparr>"

definition saveTokens ::
  "int \<Rightarrow> fs_error option \<Rightarrow> TokenUpdate \<Rightarrow> TokenStorage \<Rightarrow> (fs_error + unit) \<times> TokenStorage" where
  "saveTokens now writeFileSync tokens s =
     (if \<not> fileStorageEnabled s then (Inr (), s)
      else case writeFileSync of
             None \<Rightarrow> (Inr (), s\<lparr>tokenFile := Some (Json (tokensToSave now tokens))\<rparr>)
           | Some e \<Rightarrow>
               if e = EROFS \<or> e = EACCES then (Inr (), s\<lparr>fileStorageEnabled := False\<rparr>)
               else (Inl e, s))"

definition getTokens ::
  "int \<Rightarrow> fs_error option \<Rightarrow> TokenStorage \<Rightarrow> TokenData option \<times> TokenStorage" where
  "getTokens now readFileSync s =
     (if \<not> fileStorageEnabled s then (None, s)
      else case tokenFile s of
             None \<Rightarrow> (None, s)
           | Some content \<Rightarrow>
               (case readFileSync of
                  Some e \<Rightarrow>
                    if e = EROFS \<or> e = EACCES then (None, s\<lparr>fileStorageEnabled := False\<rparr>)
                    else (None, s)
                | None \<Rightarrow>
                    (case content of
                       Unparsable \<Rightarrow> (None, s)
                     | Json tokens \<Rightarrow>
                         if truthy_num (expires_at tokens) \<and>
                            (case expires_at tokens of Some e \<Rightarrow> e < now | None \<Rightarrow> False)
                         then (None, s)
                         else (Some tokens, s))))"

definition loadPotentiallyExpiredTokens ::
  "fs_error option \<Rightarrow> TokenStorage \<Rightarrow> TokenData option \<times> TokenStorage" where
  "loadPotentiallyExpiredTokens readFileSync s =
     (if \<not> fileStorageEnabled s then (None, s)
      else case tokenFile s of
             None \<Rightarrow> (None, s)
           | Some content \<Rightarrow>
               (case readFileSync of
                  Some e \<Rightarrow>
                    if e = EROFS \<or> e = EACCES then (None, s\<lparr>fileStorageEnabled := False\<rparr>)
                    else (None, s)
                | None \<Rightarrow>
                    (case content of
                       Unparsable \<Rightarrow> (None, s)
                     | Json tokens \<Rightarrow> (Some tokens, s))))"

definition clearTokens ::
  "fs_error option \<Rightarrow> TokenStorage \<Rightarrow> (fs_error + unit) \<times> TokenStorage" where
  "clearTokens unlinkSync s =
     (if \<not> fileStorageEnabled s then (Inr (), s)
      else case tokenFile s of
             None \<Rightarrow> (Inr (), s)
           | Some content \<Rightarrow>
               (case unlinkSync of
                  None \<Rightarrow> (Inr (), s\<lparr>tokenFile := None\<rparr>)
                | Some e \<Rightarrow>
                    if e = EROFS \<or> e = EACCES then (Inr (), s\<lparr>fileStorageEnabled := False\<rparr>)
                    else (Inl e, s)))"

text \<open>
  The methods as a client calls them, one after the other, for as long as the process
  lives: \<open>calls\<close> runs a sequence of calls and gives the store left behind (a caller
  that catches an exception goes on with the store as the raising method left it).
\<close>

datatype storage_call =
  SaveTokens int "fs_error option" TokenUpdate
| GetTokens int "fs_error option"
| LoadPotentiallyExpiredTokens "fs_error option"
| ClearTokens "fs_error option"

fun call :: "storage_call \<Rightarrow> TokenStorage \<Rightarrow> TokenStorage" where
  "call (SaveTokens now wr tokens) s = snd (saveTokens now wr tokens s)"
| "call (GetTokens now rd) s = snd (getTokens now rd s)"
| "call (LoadPotentiallyExpiredTokens rd) s = snd (loadPotentiallyExpiredTokens rd s)"
| "call (ClearTokens ul) s = snd (clearTokens ul s)"

fun calls :: "storage_call list \<Rightarrow> TokenStorage \<Rightarrow> TokenStorage" where
  "calls [] s = s"
| "calls (c # cs) s = calls cs (call c s)"

section \<open>The token endpoint (src/services/etsyApi.ts)\<close>

text \<open>
  The fields of \<open>OAuthTokenResponse\<close> that the program reads (\<open>token_type\<close> and \<open>scope\<close>
  are never read). The field names carry the prefix \<open>resp_\<close> because \<open>access_token\<close>,
  \<open>refresh_token\<close> and \<open>user_id\<close> are fields of \<open>TokenData\<close> already.
\<close>

record OAuthTokenResponse =
  resp_access_token :: string
  resp_refresh_token :: string
  resp_expires_in :: int
  resp_user_id :: "int option"

text \<open>
  The singleton \<open>etsyApi\<close>: its private field \<open>accessToken\<close>, and, as a history variable,
  the requests it has posted to \<open>/public/oauth/token\<close> so far, oldest first.
\<close>

datatype token_request =
  AuthorizationCode string string
| RefreshToken string

record EtsyApiClient =
  accessToken :: "string option"
  posted :: "token_request list"

definition setAccessToken :: "string \<Rightarrow> EtsyApiClient \<Rightarrow> EtsyApiClient" where
  "setAccessToken token api = api\<lparr>accessToken := Some token\<rparr>"

text \<open>
  \<open>refreshToken\<close>: one POST with \<open>grant_type=refresh_token\<close>. The reply of the endpoint is
  the argument \<open>response\<close>: \<open>Some\<close> of the body on a 2xx answer, \<open>None\<close> when \<open>axios.post\<close>
  raises. The result \<open>None\<close> is the \<open>Error('Failed to refresh token: ...')\<close> the method
  raises then.
\<close>

definition refreshToken ::
  "OAuthTokenResponse option \<Rightarrow> string \<Rightarrow> EtsyApiClient \<Rightarrow> OAuthTokenResponse option \<times> EtsyApiClient" where
  "refreshToken response refreshToken' api =
     (let api' = api\<lparr>posted := posted api @ [RefreshToken refreshToken']\<rparr>
      in case response of
           Some data \<Rightarrow> (Some data, api'\<lparr>accessToken := Some (resp_access_token data)\<rparr>)
         | None \<Rightarrow> (None, api'))"

section \<open>The access-token gate (src/services/mcpServer.ts)\<close>

text \<open>
  The two singletons every tool shares, and what the outside world answers during one
  call of \<open>getValidAccessToken\<close>: the clock at each \<open>Date.now()\<close>, the exception of each
  call into \<open>fs\<close>, and the reply of the token endpoint.
\<close>

record Singletons =
  tokenStorage :: TokenStorage
  etsyApi :: EtsyApiClient

record Env =
  now_getTokens :: int
  read_getTokens :: "fs_error option"
  read_load :: "fs_error option"
  token_endpoint :: "OAuthTokenResponse option"
  now_refreshed :: int
  now_saveTokens :: int
  write_save :: "fs_error option"
  unlink_clear :: "fs_error option"

text \<open>
  The \<open>catch (refreshError)\<close> block: log, \<open>clearTokens()\<close>, \<open>return null\<close>. An exception of
  \<open>clearTokens\<close> is raised inside the handler, so it leaves \<open>getValidAccessToken\<close>.
\<close>

definition catch_refreshError ::
  "fs_error option \<Rightarrow> 'a Singletons_scheme \<Rightarrow> (fs_error + string option) \<times> 'a Singletons_scheme" where
  "catch_refreshError unlinkSync w =
     (case clearTokens unlinkSync (tokenStorage w) of
        (Inl e, st) \<Rightarrow> (Inl e, w\<lparr>tokenStorage := st\<rparr>)
      | (Inr u, st) \<Rightarrow> (Inr None, w\<lparr>tokenStorage := st\<rparr>))"

definition getValidAccessToken ::
  "Env \<Rightarrow> 'a Singletons_scheme \<Rightarrow> (fs_error + string option) \<times> 'a Singletons_scheme" where
  "getValidAccessToken env w =
     (case getTokens (now_getTokens env) (read_getTokens env) (tokenStorage w) of
        (tokens, st1) \<Rightarrow>
          if (case tokens of Some t \<Rightarrow> access_token t \<noteq> [] | None \<Rightarrow> False)
          then (Inr (map_option access_token tokens), w\<lparr>tokenStorage := st1\<rparr>)
          else
            (case loadPotentiallyExpiredTokens (read_load env) st1 of
               (potentiallyExpiredTokens, st2) \<Rightarrow>
                 (case potentiallyExpiredTokens of
                    None \<Rightarrow> (Inr None, w\<lparr>tokenStorage := st2\<rparr>)
                  | Some old \<Rightarrow>
                      if \<not> truthy_str (refresh_token old)
                      then (Inr None, w\<lparr>tokenStorage := st2\<rparr>)
                      else
                        (case refreshToken (token_endpoint env)
                                (case refresh_token old of Some rt \<Rightarrow> rt | None \<Rightarrow> [])
                                (etsyApi w) of
                           (None, api) \<Rightarrow>
                             catch_refreshError (unlink_clear env)
                               (w\<lparr>tokenStorage := st2, etsyApi := api\<rparr>)
                         | (Some refreshed, api) \<Rightarrow>
                             (case saveTokens (now_saveTokens env) (write_save env)
                                     \<lparr> access_token = resp_access_token refreshed,
                                       refresh_token = Some (resp_refresh_token refreshed),
                                       expires_at =
                                         Some (now_refreshed env + resp_expires_in refreshed * 1000),
                                       user_id = user_id old,
                                       shop_id = shop_id old,
                                       shop_name = shop_name old,
                                       expires_in = None \<rparr>
                                     st2 of
                                (Inl e, st3) \<Rightarrow>
                                  catch_refreshError (unlink_clear env)
                                    (w\<lparr>tokenStorage := st3, etsyApi := api\<rparr>)
                              | (Inr u, st3) \<Rightarrow>
                                  (Inr (Some (resp_access_token refreshed)),
                                   w\<lparr>tokenStorage := st3,
                                     etsyApi := setAccessToken (resp_access_token refreshed) api\<rparr>))))))"

section \<open>PKCE (src/services/etsyApi.ts)\<close>

text \<open>
  \<open>Buffer.toString('base64')\<close>: the standard alphabet, three bytes to four characters,
  the last group padded with \<open>=\<close>.
\<close>

type_synonym byte = "8 word"

definition base64_alphabet :: string where
  "base64_alphabet = ''ABCDEFGHIJKLMNOPQRSTUVWXYZabcdefghijklmnopqrstuvwxyz0123456789+/''"

definition base64_char :: "nat \<Rightarrow> char" where
  "base64_char n = base64_alphabet ! (n mod 64)"

fun base64 :: "byte list \<Rightarrow> string" where
  "base64 (a # b # c # rest) =
     [base64_char (unat a div 4),
      base64_char ((unat a mod 4) * 16 + unat b div 16),
      base64_char ((unat b mod 16) * 4 + unat c div 64),
      base64_char (unat c mod 64)] @ base64 rest"
| "base64 [a, b] =
     [base64_char (unat a div 4),
      base64_char ((unat a mod 4) * 16 + unat b div 16),
      base64_char ((unat b mod 16) * 4),
      CHR ''='']"
| "base64 [a] =
     [base64_char (unat a div 4),
      base64_char ((unat a mod 4) * 16),
      CHR ''='', CHR ''='']"
| "base64 [] = []"

text \<open>The character class \<open>[a-zA-Z0-9]\<close> of the regular expression.\<close>

definition alphanumeric :: "char \<Rightarrow> bool" where
  "alphanumeric c =
     (c \<in> set ''abcdefghijklmnopqrstuvwxyzABCDEFGHIJKLMNOPQRSTUVWXYZ0123456789'')"

text \<open>
  \<open>generatePKCE\<close>. Its arguments are the 32 bytes \<open>crypto.randomBytes(32)\<close> returns and
  the SHA-256 digest of the \<open>crypto\<close> library, which is not part of the repository. The
  result is the pair \<open>(codeVerifier, codeChallenge)\<close>.
\<close>

definition generatePKCE :: "(string \<Rightarrow> byte list) \<Rightarrow> byte list \<Rightarrow> string \<times> string" where
  "generatePKCE sha256 randomBytes =
     (let localCodeVerifier = take 128 (filter alphanumeric (base64 randomBytes));
          codeChallenge =
            filter (\<lambda>c. c \<noteq> CHR ''='')
              (map (\<lambda>c. if c = CHR ''/'' then CHR ''_'' else c)
                 (map (\<lambda>c. if c = CHR ''+'' then CHR ''-'' else c)
                    (base64 (sha256 localCodeVerifier))))
      in (localCodeVerifier, codeChallenge))"

section \<open>The callback listener (src/services/oauthServer.ts)\<close>

record StateData =
  codeVerifier :: string
  createdAt :: int

definition stateTTL :: int where
  "stateTTL = 5 * 60 * 1000"

text \<open>
  The \<open>OAuthServer\<close> with the two singletons it uses: \<open>stateStore\<close> is the
  \<open>Map<string, StateData>\<close>.
\<close>

record OAuthServer = Singletons +
  stateStore :: "string \<rightharpoonup> StateData"

text \<open>
  One tick of the interval timer set up by \<open>cleanupExpiredStates\<close> (every 60 seconds),
  at clock \<open>now\<close>.
\<close>

definition cleanupExpiredStates :: "int \<Rightarrow> OAuthServer \<Rightarrow> OAuthServer" where
  "cleanupExpiredStates now srv =
     srv\<lparr>stateStore :=
           (\<lambda>state. case stateStore srv state of
                       None \<Rightarrow> None
                     | Some data \<Rightarrow>
                         if now - createdAt data > stateTTL then None else Some data)\<rparr>"

text \<open>
  The route \<open>/auth\<close> at clock \<open>now\<close>: \<open>state\<close> is the hexadecimal text of
  \<open>crypto.randomBytes(16)\<close> and \<open>codeVerifier\<close> the verifier \<open>generatePKCE\<close> returns for
  this attempt. The redirect it answers with is not modelled.
\<close>

definition auth :: "int \<Rightarrow> string \<Rightarrow> string \<Rightarrow> OAuthServer \<Rightarrow> OAuthServer" where
  "auth now state codeVerifier' srv =
     srv\<lparr>stateStore :=
           (stateStore srv)(state \<mapsto> \<lparr> codeVerifier = codeVerifier', createdAt = now \<rparr>)\<rparr>"

text \<open>
  A value of \<open>req.query\<close>: missing, a string, or an array or object (with its rendering
  as a string), which is what express makes of a repeated or bracketed parameter.
\<close>

datatype query_value = Absent | Str string | NonString string

definition truthy_query :: "query_value \<Rightarrow> bool" where
  "truthy_query v = (case v of Absent \<Rightarrow> False | Str s \<Rightarrow> s \<noteq> [] | NonString s \<Rightarrow> True)"

definition render :: "query_value \<Rightarrow> string" where
  "render v = (case v of Absent \<Rightarrow> ''undefined'' | Str s \<Rightarrow> s | NonString s \<Rightarrow> s)"

record Query =
  code :: query_value
  state :: query_value
  error :: query_value

text \<open>The page sent back: its status and the message of its heading or first paragraph.\<close>

datatype http_response = Response nat string

text \<open>
  \<open>getAccessTokenFromCode\<close>: one POST with \<open>grant_type=authorization_code\<close>. The argument
  \<open>response\<close> is what the method returns on a 2xx answer, with \<open>user_id\<close> already parsed
  from the access token, and \<open>None\<close> when \<open>axios.post\<close> raises; the result \<open>None\<close> is the
  exception the method raises then.
\<close>

definition getAccessTokenFromCode ::
  "OAuthTokenResponse option \<Rightarrow> string \<Rightarrow> string \<Rightarrow> EtsyApiClient
     \<Rightarrow> OAuthTokenResponse option \<times> EtsyApiClient" where
  "getAccessTokenFromCode response code' codeVerifier' api =
     (let api' = api\<lparr>posted := posted api @ [AuthorizationCode code' codeVerifier']\<rparr>
      in case response of
           Some data \<Rightarrow> (Some data, api'\<lparr>accessToken := Some (resp_access_token data)\<rparr>)
         | None \<Rightarrow> (None, api'))"

text \<open>
  What the outside world answers during one callback: the reply to the code exchange, the
  shop selected from the answer of \<open>getUserShops\<close> as \<open>(shop_id, shop_name)\<close> (\<open>None\<close> when
  the lookup raises or finds no shop), and the clock and the exception of the write inside
  \<open>saveTokens\<close>.
\<close>

record CallbackEnv =
  exchange :: "OAuthTokenResponse option"
  shop_lookup :: "(int option \<times> string option) option"
  now_save :: int
  write_tokens :: "fs_error option"

text \<open>The handler of \<open>/oauth/callback\<close>.\<close>

definition oauth_callback ::
  "CallbackEnv \<Rightarrow> Query \<Rightarrow> OAuthServer \<Rightarrow> http_response \<times> OAuthServer" where
  "oauth_callback env q srv =
     (if truthy_query (error q)
      then (Response 500 (''OAuth Error: '' @ render (error q)), srv)
      else
        (case (code q, state q) of
           (Str code', Str state') \<Rightarrow>
             (if code' = [] \<or> state' = []
              then (Response 500 ''Missing authorization code or state in callback'', srv)
              else
               (case stateStore srv state' of
                  None \<Rightarrow> (Response 500 ''Invalid or expired state parameter'', srv)
                | Some storedStateData \<Rightarrow>
                    (let srv1 = srv\<lparr>stateStore := (stateStore srv)(state' := None)\<rparr>
                     in case getAccessTokenFromCode (exchange env) code'
                               (codeVerifier storedStateData) (etsyApi srv1) of
                          (None, api) \<Rightarrow>
                            (Response 500 ''Token exchange failed'', srv1\<lparr>etsyApi := api\<rparr>)
                        | (Some tokens, api) \<Rightarrow>
                            (let shopToSet =
                                   (if truthy_num (resp_user_id tokens) \<and>
                                       resp_access_token tokens \<noteq> []
                                    then shop_lookup env else None)
                             in case saveTokens (now_save env) (write_tokens env)
                                       \<lparr> access_token = resp_access_token tokens,
                                         refresh_token = Some (resp_refresh_token tokens),
                                         expires_at = None,
                                         user_id = resp_user_id tokens,
                                         shop_id = (case shopToSet of
                                                      None \<Rightarrow> None | Some shop \<Rightarrow> fst shop),
                                         shop_name = (case shopToSet of
                                                        None \<Rightarrow> None | Some shop \<Rightarrow> snd shop),
                                         expires_in = Some (resp_expires_in tokens) \<rparr>
                                       (tokenStorage srv1) of
                                  (Inl e, st) \<Rightarrow>
                                    (Response 500 ''Token exchange failed'',
                                     srv1\<lparr>tokenStorage := st, etsyApi := api\<rparr>)
                                | (Inr u, st) \<Rightarrow>
                                    (Response 200 ''Authentication Successful!'',
                                     srv1\<lparr>tokenStorage := st,
                                          etsyApi :=
                                            setAccessToken (resp_access_token tokens) api\<rparr>)))))
         | _ \<Rightarrow> (Response 500 ''Missing authorization code or state in callback'', srv)))"

text \<open>
  What happens to the listener over time: requests to \<open>/auth\<close>, callbacks and ticks of
  the cleanup timer, in the order in which they are handled.
\<close>

datatype event =
  Auth int string string
| Callback CallbackEnv Query
| Sweep int

fun handle :: "event \<Rightarrow> OAuthServer \<Rightarrow> OAuthServer" where
  "handle (Auth now state' codeVerifier') srv = auth now state' codeVerifier' srv"
| "handle (Callback env q) srv = snd (oauth_callback env q srv)"
| "handle (Sweep now) srv = cleanupExpiredStates now srv"

fun run :: "event list \<Rightarrow> OAuthServer \<Rightarrow> OAuthServer" where
  "run [] srv = srv"
| "run (ev # evs) srv = run evs (handle ev srv)"

text \<open>An event that puts the state value \<open>s\<close> into the store.\<close>

fun issues :: "string \<Rightarrow> event \<Rightarrow> bool" where
  "issues s (Auth now state' codeVerifier') = (state' = s)"
| "issues s (Callback env q) = False"
| "issues s (Sweep now) = False"

section \<open>Example inputs\<close>

text \<open>
  Concrete inputs at which the theorems below are instantiated: a stored record that
  expired at time 1000 and carries a refresh token, the two singletons holding it, a reply
  of the token endpoint, and an outside world in which every call succeeds at time 2000.
\<close>

abbreviation expired_record :: TokenData where
  "expired_record \<equiv>
     \<lparr> access_token = ''old'', refresh_token = Some ''r0'', expires_at = Some 1000,
       user_id = Some 7, shop_id = Some 9, shop_name = Some ''shop'' \<rparr>"

abbreviation world0 :: Singletons where
  "world0 \<equiv>
     \<lparr> tokenStorage = \<lparr> fileStorageEnabled = True, tokenFile = Some (Json expired_record) \<rparr>,
       etsyApi = \<lparr> accessToken = None, posted = [] \<rparr> \<rparr>"

abbreviation reply0 :: OAuthTokenResponse where
  "reply0 \<equiv>
     \<lparr> resp_access_token = ''new'', resp_refresh_token = ''r1'', resp_expires_in = 3600,
       resp_user_id = None \<rparr>"

abbreviation env0 :: Env where
  "env0 \<equiv>
     \<lparr> now_getTokens = 2000, read_getTokens = None, read_load = None,
       token_endpoint = Some reply0, now_refreshed = 2001, now_saveTokens = 2002,
       write_save = None, unlink_clear = None \<rparr>"

abbreviation update0 :: TokenUpdate where
  "update0 \<equiv>
     \<lparr> access_token = ''tok'', refresh_token = None, expires_at = None, user_id = None,
       shop_id = None, shop_name = None, expires_in = None \<rparr>"

abbreviation server0 :: OAuthServer where
  "server0 \<equiv>
     \<lparr> tokenStorage = \<lparr> fileStorageEnabled = True, tokenFile = None \<rparr>,
       etsyApi = \<lparr> accessToken = None, posted = [] \<rparr>,
       stateStore = Map.empty \<rparr>"

abbreviation query0 :: Query where
  "query0 \<equiv> \<lparr> code = Str ''abc'', state = Str ''s1'', error = Absent \<rparr>"

abbreviation callback_env0 :: CallbackEnv where
  "callback_env0 \<equiv>
     \<lparr> exchange = Some reply0, shop_lookup = None, now_save = 2000, write_tokens = None \<rparr>"

abbreviation bytes_00 :: "byte list" where
  "bytes_00 \<equiv>
     [0, 0, 0, 0, 0, 0, 0, 0, 0, 0, 0, 0, 0, 0, 0, 0,
      0, 0, 0, 0, 0, 0, 0, 0, 0, 0, 0, 0, 0, 0, 0, 0]"

section \<open>Properties of the token storage\<close>

lemma fs_error_other: "e \<noteq> EROFS \<Longrightarrow> e \<noteq> EACCES \<Longrightarrow> e = EOTHER"
  by (cases e) simp_all

lemma saveTokens_disabled:
  "\<not> fileStorageEnabled s \<Longrightarrow> saveTokens now wr tokens s = (Inr (), s)"
  by (simp add: saveTokens_def)

lemma getTokens_disabled: "\<not> fileStorageEnabled s \<Longrightarrow> getTokens now rd s = (None, s)"
  by (simp add: getTokens_def)

lemma loadPotentiallyExpiredTokens_disabled:
  "\<not> fileStorageEnabled s \<Longrightarrow> loadPotentiallyExpiredTokens rd s = (None, s)"
  by (simp add: loadPotentiallyExpiredTokens_def)

lemma clearTokens_disabled: "\<not> fileStorageEnabled s \<Longrightarrow> clearTokens ul s = (Inr (), s)"
  by (simp add: clearTokens_def)

lemma call_disabled: "\<not> fileStorageEnabled s \<Longrightarrow> call c s = s"
  by (cases c)
     (simp_all add: saveTokens_disabled getTokens_disabled
        loadPotentiallyExpiredTokens_disabled clearTokens_disabled)

lemma calls_disabled: "\<not> fileStorageEnabled s \<Longrightarrow> calls cs s = s"
  by (induction cs arbitrary: s) (simp_all add: call_disabled)

subsection \<open>Expiry on read\<close>

text \<open>
  C3, as stated, fails at the boundary: \<open>getTokens\<close> compares with
  \<open>tokens.expires_at < Date.now()\<close>, so a record whose \<open>expires_at\<close> equals the clock is
  returned, not treated as expired.
\<close>

theorem getTokens_boundary_counterexample:
  "fst (getTokens 1000 None
          \<lparr> fileStorageEnabled = True, tokenFile = Some (Json expired_record) \<rparr>)
   = Some expired_record"
  by (simp add: getTokens_def truthy_num_def)

text \<open>
  C3 (amended): for a stored record that is read without error, \<open>getTokens\<close> returns null
  exactly when \<open>expires_at\<close> is present, non-zero and strictly less than the clock;
  otherwise, in particular when the clock equals \<open>expires_at\<close>, it returns the record.
\<close>

theorem getTokens_expiry:
  assumes "fileStorageEnabled s" and "tokenFile s = Some (Json t)"
  shows "fst (getTokens now None s) =
           (case expires_at t of
              None \<Rightarrow> Some t
            | Some e \<Rightarrow> if e \<noteq> 0 \<and> e < now then None else Some t)"
  using assms by (simp add: getTokens_def truthy_num_def split: option.splits)

text \<open>The record that expired at 1000 is not returned at 1001.\<close>

theorem getTokens_expiry_witness:
  "fileStorageEnabled (tokenStorage world0) \<and>
   tokenFile (tokenStorage world0) = Some (Json expired_record) \<and>
   fst (getTokens 1001 None (tokenStorage world0)) = None"
proof -
  have h1: "fileStorageEnabled (tokenStorage world0)"
    by simp
  have h2: "tokenFile (tokenStorage world0) = Some (Json expired_record)"
    by simp
  from getTokens_expiry [OF h1 h2, of 1001] h1 h2 show ?thesis
    by simp
qed

subsection \<open>The expiry time written by a save\<close>

text \<open>
  C8, as stated, fails when the caller gives neither \<open>expires_in\<close> nor \<open>expires_at\<close>: the
  record written at time 5000 expires at 5000 + 3600000, a value that is neither derived from
  a reported lifetime nor preserved from a supplied \<open>expires_at\<close>.
\<close>

theorem saveTokens_default_expiry_counterexample:
  "expires_in update0 = None \<and> expires_at update0 = None \<and>
   tokenFile (snd (saveTokens 5000 None update0
                     \<lparr> fileStorageEnabled = True, tokenFile = None \<rparr>))
   = Some (Json \<lparr> access_token = ''tok'', refresh_token = None, expires_at = Some 3605000,
                  user_id = None, shop_id = None, shop_name = None \<rparr>)"
  by (simp add: saveTokens_def tokensToSave_def newExpiresAt_def truthy_num_def)

text \<open>
  C8 (amended): for integer clock values, lifetimes and expiry times within JavaScript's
  safe-integer range (so that the program's arithmetic on doubles is exact), after every save
  that writes the file the persisted record's \<open>expires_at\<close> is set, to a safe integer, and
  its value is \<open>now + expires_in * 1000\<close> when the caller gives a non-zero \<open>expires_in\<close>;
  otherwise the caller's \<open>expires_at\<close> when that is given and non-zero; otherwise the
  default \<open>now + 3600000\<close> (one hour).
\<close>

theorem saveTokens_expires_at:
  assumes "fileStorageEnabled s"
    and "safe_integer now" and "safe_integer (now + 3600000)"
    and "\<forall>n. expires_in tokens = Some n \<longrightarrow>
              safe_integer n \<and> safe_integer (n * 1000) \<and> safe_integer (now + n * 1000)"
    and "\<forall>e. expires_at tokens = Some e \<longrightarrow> safe_integer e"
  shows "\<exists>saved. tokenFile (snd (saveTokens now None tokens s)) = Some (Json saved) \<and>
           expires_at saved \<noteq> None \<and>
           (\<forall>n. expires_in tokens = Some n \<longrightarrow> n \<noteq> 0 \<longrightarrow>
                 expires_at saved = Some (now + n * 1000)) \<and>
           (\<not> truthy_num (expires_in tokens) \<longrightarrow>
              (\<forall>e. expires_at tokens = Some e \<longrightarrow> e \<noteq> 0 \<longrightarrow> expires_at saved = Some e)) \<and>
           (\<not> truthy_num (expires_in tokens) \<longrightarrow> \<not> truthy_num (expires_at tokens) \<longrightarrow>
              expires_at saved = Some (now + 3600000)) \<and>
           (\<forall>e. expires_at saved = Some e \<longrightarrow> safe_integer e)"
  using assms
  by (auto simp add: saveTokens_def tokensToSave_def newExpiresAt_def truthy_num_def
           split: option.splits)

text \<open>A save at time 5000 with \<open>expires_in = 3600\<close> writes \<open>expires_at = 3605000\<close>.\<close>

theorem saveTokens_expires_at_witness:
  "fileStorageEnabled \<lparr> fileStorageEnabled = True, tokenFile = None \<rparr> \<and>
   safe_integer 5000 \<and> safe_integer (5000 + 3600000) \<and>
   safe_integer 3600 \<and> safe_integer (3600 * 1000) \<and> safe_integer (5000 + 3600 * 1000) \<and>
   (\<exists>saved. tokenFile (snd (saveTokens 5000 None (update0\<lparr>expires_in := Some 3600\<rparr>)
                               \<lparr> fileStorageEnabled = True, tokenFile = None \<rparr>))
              = Some (Json saved) \<and>
            expires_at saved = Some 3605000)"
proof -
  have h1: "fileStorageEnabled \<lparr> fileStorageEnabled = True, tokenFile = None \<rparr>"
    by simp
  have h2: "safe_integer 5000" and h3: "safe_integer (5000 + 3600000)"
    and r: "safe_integer 3600" "safe_integer (3600 * 1000)" "safe_integer (5000 + 3600 * 1000)"
    by (simp_all add: safe_integer_def)
  have h4: "\<forall>n. expires_in (update0\<lparr>expires_in := Some 3600\<rparr>) = Some n \<longrightarrow>
              safe_integer n \<and> safe_integer (n * 1000) \<and> safe_integer (5000 + n * 1000)"
    using r by simp
  have h5: "\<forall>e. expires_at (update0\<lparr>expires_in := Some 3600\<rparr>) = Some e \<longrightarrow> safe_integer e"
    by simp
  from saveTokens_expires_at [OF h1 h2 h3 h4 h5]
  obtain saved where
    "tokenFile (snd (saveTokens 5000 None (update0\<lparr>expires_in := Some 3600\<rparr>)
                       \<lparr> fileStorageEnabled = True, tokenFile = None \<rparr>)) = Some (Json saved)"
    and "\<forall>n. expires_in (update0\<lparr>expires_in := Some 3600\<rparr>) = Some n \<longrightarrow> n \<noteq> 0 \<longrightarrow>
             expires_at saved = Some (5000 + n * 1000)"
    by blast
  then show ?thesis
    using h1 h2 h3 r by auto
qed

subsection \<open>The disabled mode\<close>

text \<open>
  C9: when the write of a save raises \<open>EROFS\<close> or \<open>EACCES\<close>, \<open>saveTokens\<close> returns
  without raising and the store is disabled from then on: after any further sequence of
  calls it is still disabled, every \<open>getTokens\<close> and every
  \<open>loadPotentiallyExpiredTokens\<close> returns null, and every \<open>saveTokens\<close> returns without
  raising and leaves the store as it was.
\<close>

theorem saveTokens_permission_error_disables:
  assumes "fileStorageEnabled s" and "e = EROFS \<or> e = EACCES"
  shows "fst (saveTokens now (Some e) tokens s) = Inr () \<and>
         (\<forall>cs. let s' = calls cs (snd (saveTokens now (Some e) tokens s)) in
            \<not> fileStorageEnabled s' \<and>
            (\<forall>now' rd. fst (getTokens now' rd s') = None) \<and>
            (\<forall>rd. fst (loadPotentiallyExpiredTokens rd s') = None) \<and>
            (\<forall>now' wr tokens'. saveTokens now' wr tokens' s' = (Inr (), s')))"
proof -
  obtain d where d: "d = snd (saveTokens now (Some e) tokens s)"
    by simp
  have ret: "fst (saveTokens now (Some e) tokens s) = Inr ()"
    using assms by (auto simp add: saveTokens_def)
  have off: "\<not> fileStorageEnabled d"
    using assms d by (auto simp add: saveTokens_def)
  have stay: "calls cs d = d" for cs
    using off by (rule calls_disabled)
  have "\<not> fileStorageEnabled d \<and>
        (\<forall>now' rd. fst (getTokens now' rd d) = None) \<and>
        (\<forall>rd. fst (loadPotentiallyExpiredTokens rd d) = None) \<and>
        (\<forall>now' wr tokens'. saveTokens now' wr tokens' d = (Inr (), d))"
    using off
    by (simp add: getTokens_disabled loadPotentiallyExpiredTokens_disabled saveTokens_disabled)
  then show ?thesis
    using ret by (simp add: stay d [symmetric] Let_def)
qed

text \<open>
  A save that meets \<open>EACCES\<close> returns; after a second save, whose write would succeed,
  \<open>getTokens\<close> still returns null.
\<close>

theorem saveTokens_permission_error_disables_witness:
  "fileStorageEnabled \<lparr> fileStorageEnabled = True, tokenFile = None \<rparr> \<and>
   (EACCES = EROFS \<or> EACCES = EACCES) \<and>
   fst (saveTokens 1 (Some EACCES) update0
          \<lparr> fileStorageEnabled = True, tokenFile = None \<rparr>) = Inr () \<and>
   fst (getTokens 7 None
         (calls [SaveTokens 5 None update0]
            (snd (saveTokens 1 (Some EACCES) update0
                    \<lparr> fileStorageEnabled = True, tokenFile = None \<rparr>)))) = None"
proof -
  have h1: "fileStorageEnabled \<lparr> fileStorageEnabled = True, tokenFile = None \<rparr>"
    by simp
  have h2: "EACCES = EROFS \<or> EACCES = EACCES"
    by simp
  note main = saveTokens_permission_error_disables [OF h1 h2, of 1 update0]
  note later = main [THEN conjunct2, THEN spec, of "[SaveTokens 5 None update0]"]
  from main [THEN conjunct1] later h1 h2 show ?thesis
    by (simp only: Let_def)
qed

section \<open>Properties of the access-token gate\<close>

lemmas gate_defs = getValidAccessToken_def catch_refreshError_def getTokens_def
  loadPotentiallyExpiredTokens_def refreshToken_def saveTokens_def clearTokens_def
  tokensToSave_def newExpiresAt_def truthy_num_def truthy_str_def setAccessToken_def

subsection \<open>Refreshing an expired token\<close>

text \<open>
  C1, as stated, fails when the exchange succeeds but writing the new record raises an
  error other than \<open>EROFS\<close>/\<open>EACCES\<close> (a full disk, say): \<open>saveTokens\<close> re-raises it inside
  the \<open>try\<close> block, the \<open>catch\<close> block deletes the stored record, and the call returns null
  although the endpoint has answered with the token \<open>''new''\<close>.
\<close>

theorem getValidAccessToken_save_failure_counterexample:
  "getValidAccessToken (env0\<lparr>write_save := Some EOTHER\<rparr>) world0 =
     (Inr None,
      \<lparr> tokenStorage = \<lparr> fileStorageEnabled = True, tokenFile = None \<rparr>,
        etsyApi = \<lparr> accessToken = Some ''new'', posted = [RefreshToken ''r0''] \<rparr> \<rparr>)"
  by (simp add: gate_defs)

text \<open>
  C1 (amended): for every stored token record that is read without error and has a
  non-empty \<open>refresh_token\<close> and a non-zero \<open>expires_at\<close> in the past, a call to
  \<open>getValidAccessToken\<close> performs exactly one refresh-token exchange, with the stored
  refresh token; when that exchange succeeds and the new record is written without error,
  the call returns the new access token and the persisted record carries the new access
  token and the \<open>user_id\<close>, \<open>shop_id\<close> and \<open>shop_name\<close> stored before the refresh.
\<close>

theorem getValidAccessToken_refreshes_expired:
  assumes "fileStorageEnabled (tokenStorage w)"
    and "tokenFile (tokenStorage w) = Some (Json old)"
    and "refresh_token old = Some rt" and "rt \<noteq> []"
    and "expires_at old = Some e" and "e \<noteq> 0" and "e < now_getTokens env"
    and "read_getTokens env = None" and "read_load env = None"
  shows "posted (etsyApi (snd (getValidAccessToken env w))) =
           posted (etsyApi w) @ [RefreshToken rt] \<and>
         (\<forall>r. token_endpoint env = Some r \<longrightarrow> write_save env = None \<longrightarrow>
            fst (getValidAccessToken env w) = Inr (Some (resp_access_token r)) \<and>
            (\<exists>saved. tokenFile (tokenStorage (snd (getValidAccessToken env w)))
                        = Some (Json saved) \<and>
               access_token saved = resp_access_token r \<and>
               user_id saved = user_id old \<and>
               shop_id saved = shop_id old \<and>
               shop_name saved = shop_name old))"
  using assms
  by (auto simp add: gate_defs Let_def split: option.splits sum.splits prod.splits)

text \<open>
  With every call succeeding, the record that expired at 1000 is refreshed at 2000 by one
  exchange, and the call returns \<open>''new''\<close>.
\<close>

theorem getValidAccessToken_refreshes_expired_witness:
  "posted (etsyApi (snd (getValidAccessToken env0 world0))) = [RefreshToken ''r0''] \<and>
   fst (getValidAccessToken env0 world0) = Inr (Some ''new'') \<and>
   (\<exists>saved. tokenFile (tokenStorage (snd (getValidAccessToken env0 world0)))
               = Some (Json saved) \<and>
      access_token saved = ''new'' \<and> user_id saved = Some 7 \<and>
      shop_id saved = Some 9 \<and> shop_name saved = Some ''shop'')"
proof -
  have h1: "fileStorageEnabled (tokenStorage world0)"
    and h2: "tokenFile (tokenStorage world0) = Some (Json expired_record)"
    and h3: "refresh_token expired_record = Some ''r0''" and h4: "''r0'' \<noteq> []"
    and h5: "expires_at expired_record = Some 1000" and h6: "(1000::int) \<noteq> 0"
    and h7: "1000 < now_getTokens env0"
    and h8: "read_getTokens env0 = None" and h9: "read_load env0 = None"
    by simp_all
  note main = getValidAccessToken_refreshes_expired [OF h1 h2 h3 h4 h5 h6 h7 h8 h9]
  have ok: "token_endpoint env0 = Some reply0" "write_save env0 = None"
    by simp_all
  from main [THEN conjunct1] main [THEN conjunct2, THEN spec, of reply0] ok
  show ?thesis
    by simp
qed

subsection \<open>A failed refresh\<close>

text \<open>
  C2, as stated, fails when deleting the token file raises an error other than
  \<open>EROFS\<close>/\<open>EACCES\<close>: \<open>clearTokens\<close> re-raises it, so \<open>getValidAccessToken\<close> raises
  instead of returning null, and the stale record is still returned by
  \<open>loadPotentiallyExpiredTokens\<close> afterwards.
\<close>

theorem getValidAccessToken_clear_failure_counterexample:
  "fst (getValidAccessToken (env0\<lparr>token_endpoint := None, unlink_clear := Some EOTHER\<rparr>) world0)
     = Inl EOTHER \<and>
   fst (loadPotentiallyExpiredTokens None
          (tokenStorage
             (snd (getValidAccessToken
                     (env0\<lparr>token_endpoint := None, unlink_clear := Some EOTHER\<rparr>) world0))))
     = Some expired_record"
  by (simp add: gate_defs)

text \<open>
  C2 (amended): for every state in which the stored record is read without error, has a
  non-empty \<open>refresh_token\<close> and has an empty or expired access token, if the refresh
  exchange fails and deleting the token file does not raise an error other than
  \<open>EROFS\<close>/\<open>EACCES\<close>, then \<open>getValidAccessToken\<close> returns null and afterwards every
  \<open>getTokens\<close> and every \<open>loadPotentiallyExpiredTokens\<close> returns null.
\<close>

theorem getValidAccessToken_refresh_failure_clears:
  assumes "fileStorageEnabled (tokenStorage w)"
    and "tokenFile (tokenStorage w) = Some (Json old)"
    and "refresh_token old = Some rt" and "rt \<noteq> []"
    and "access_token old = [] \<or>
         (\<exists>e. expires_at old = Some e \<and> e \<noteq> 0 \<and> e < now_getTokens env)"
    and "read_getTokens env = None" and "read_load env = None"
    and "token_endpoint env = None"
    and "unlink_clear env \<noteq> Some EOTHER"
  shows "fst (getValidAccessToken env w) = Inr None \<and>
         (\<forall>now rd. fst (getTokens now rd (tokenStorage (snd (getValidAccessToken env w))))
                      = None) \<and>
         (\<forall>rd. fst (loadPotentiallyExpiredTokens rd
                      (tokenStorage (snd (getValidAccessToken env w)))) = None)"
proof (cases "unlink_clear env")
  case None
  with assms show ?thesis
    by (auto simp add: gate_defs Let_def split: option.splits)
next
  case (Some x)
  with assms have "x = EROFS \<or> x = EACCES"
    by (cases x) simp_all
  with Some assms show ?thesis
    by (auto simp add: gate_defs Let_def split: option.splits)
qed

text \<open>
  The endpoint rejects the refresh token of the expired record and the file is deleted:
  the call returns null, and so do both readers afterwards.
\<close>

theorem getValidAccessToken_refresh_failure_clears_witness:
  "fst (getValidAccessToken (env0\<lparr>token_endpoint := None\<rparr>) world0) = Inr None \<and>
   fst (getTokens 3000 None
          (tokenStorage (snd (getValidAccessToken (env0\<lparr>token_endpoint := None\<rparr>) world0))))
     = None \<and>
   fst (loadPotentiallyExpiredTokens None
          (tokenStorage (snd (getValidAccessToken (env0\<lparr>token_endpoint := None\<rparr>) world0))))
     = None"
proof -
  have h1: "fileStorageEnabled (tokenStorage world0)"
    and h2: "tokenFile (tokenStorage world0) = Some (Json expired_record)"
    and h3: "refresh_token expired_record = Some ''r0''" and h4: "''r0'' \<noteq> []"
    and h5: "access_token expired_record = [] \<or>
         (\<exists>e. expires_at expired_record = Some e \<and> e \<noteq> 0 \<and>
              e < now_getTokens (env0\<lparr>token_endpoint := None\<rparr>))"
    and h6: "read_getTokens (env0\<lparr>token_endpoint := None\<rparr>) = None"
    and h7: "read_load (env0\<lparr>token_endpoint := None\<rparr>) = None"
    and h8: "token_endpoint (env0\<lparr>token_endpoint := None\<rparr>) = None"
    and h9: "unlink_clear (env0\<lparr>token_endpoint := None\<rparr>) \<noteq> Some EOTHER"
    by simp_all
  note main = getValidAccessToken_refresh_failure_clears [OF h1 h2 h3 h4 h5 h6 h7 h8 h9]
  from main [THEN conjunct1]
    main [THEN conjunct2, THEN conjunct1, THEN spec, THEN spec, of 3000 None]
    main [THEN conjunct2, THEN conjunct2, THEN spec, of None]
  show ?thesis
    by blast
qed

subsection \<open>Exceptions of the gate\<close>

text \<open>
  C6, as stated, fails: \<open>clearTokens\<close> is called inside the \<open>catch\<close> block and re-raises
  every error other than \<open>EROFS\<close>/\<open>EACCES\<close>. Here the stored record has no access token,
  the refresh exchange fails, and deleting the file raises: the call raises.
\<close>

theorem getValidAccessToken_throws_counterexample:
  "fst (getValidAccessToken
          \<lparr> now_getTokens = 2000, read_getTokens = None, read_load = None,
            token_endpoint = None, now_refreshed = 2000, now_saveTokens = 2000,
            write_save = None, unlink_clear = Some EOTHER \<rparr>
          \<lparr> tokenStorage =
              \<lparr> fileStorageEnabled = True,
                tokenFile = Some (Json \<lparr> access_token = '''', refresh_token = Some ''r0'',
                                        expires_at = Some 9000, user_id = None,
                                        shop_id = None, shop_name = None \<rparr>) \<rparr>,
            etsyApi = \<lparr> accessToken = None, posted = [] \<rparr> \<rparr>)
   = Inl EOTHER"
  by (simp add: gate_defs)

text \<open>
  C6 (amended): for every storage state and every outcome of the refresh exchange,
  \<open>getValidAccessToken\<close> returns, a token or null, whenever deleting the token file
  does not raise an error other than \<open>EROFS\<close>/\<open>EACCES\<close>; the only exception that leaves it
  is the one \<open>clearTokens\<close> re-raises after a refresh attempt whose exchange, or whose save,
  has failed.
\<close>

theorem getValidAccessToken_throws_only_from_clearTokens:
  "(unlink_clear env \<noteq> Some EOTHER \<longrightarrow> (\<exists>r. fst (getValidAccessToken env w) = Inr r)) \<and>
   (\<forall>e. fst (getValidAccessToken env w) = Inl e \<longrightarrow>
      e = EOTHER \<and> unlink_clear env = Some EOTHER \<and>
      (token_endpoint env = None \<or> write_save env = Some EOTHER))"
proof -
  have a: "e = EOTHER \<and> unlink_clear env = Some EOTHER \<and>
      (token_endpoint env = None \<or> write_save env = Some EOTHER)"
    if "fst (getValidAccessToken env w) = Inl e" for e
    using that
    by (cases e; cases "token_endpoint env"; cases "write_save env"; cases "unlink_clear env")
       (auto simp add: gate_defs Let_def intro: fs_error_other
          split: option.splits if_splits file_content.splits)
  have b: "\<exists>r. fst (getValidAccessToken env w) = Inr r" if "unlink_clear env \<noteq> Some EOTHER"
  proof (cases "fst (getValidAccessToken env w)")
    case (Inl e)
    from a [OF Inl] that show ?thesis by simp
  next
    case (Inr r)
    then show ?thesis by simp
  qed
  from a b show ?thesis by blast
qed

text \<open>
  When the exchange fails and the deletion meets \<open>EACCES\<close>, the call returns null.
\<close>

theorem getValidAccessToken_throws_only_from_clearTokens_witness:
  "unlink_clear (env0\<lparr>token_endpoint := None, unlink_clear := Some EACCES\<rparr>) \<noteq> Some EOTHER \<and>
   fst (getValidAccessToken (env0\<lparr>token_endpoint := None, unlink_clear := Some EACCES\<rparr>) world0)
     = Inr None"
proof -
  have h: "unlink_clear (env0\<lparr>token_endpoint := None, unlink_clear := Some EACCES\<rparr>)
             \<noteq> Some EOTHER"
    by simp
  from getValidAccessToken_throws_only_from_clearTokens
         [of "env0\<lparr>token_endpoint := None, unlink_clear := Some EACCES\<rparr>" world0,
          THEN conjunct1, rule_format, OF h]
  obtain r where
    r: "fst (getValidAccessToken (env0\<lparr>token_endpoint := None, unlink_clear := Some EACCES\<rparr>)
               world0) = Inr r"
    by blast
  have "fst (getValidAccessToken (env0\<lparr>token_endpoint := None, unlink_clear := Some EACCES\<rparr>)
               world0) = Inr None"
    by (simp add: gate_defs)
  with h r show ?thesis
    by simp
qed

section \<open>Properties of the PKCE generator\<close>

lemma base64_length: "length (base64 bs) = 4 * ((length bs + 2) div 3)"
proof (induction bs rule: base64.induct)
  case (1 a b c rest)
  have "(length (a # b # c # rest) + 2) div 3 = (length rest + 2) div 3 + 1"
    by simp
  with 1 show ?case
    by simp
qed simp_all

lemma base64_char_alphabet: "base64_char n \<in> set base64_alphabet"
proof -
  have "length base64_alphabet = 64"
    by (simp add: base64_alphabet_def)
  then have "n mod 64 < length base64_alphabet"
    by simp
  then show ?thesis
    unfolding base64_char_def by (rule nth_mem)
qed

lemma base64_alphabet_alphanumeric:
  "c \<in> set base64_alphabet \<Longrightarrow> c \<noteq> CHR ''+'' \<Longrightarrow> c \<noteq> CHR ''/'' \<Longrightarrow> alphanumeric c"
  by (auto simp add: base64_alphabet_def alphanumeric_def)

lemma equals_not_alphanumeric: "\<not> alphanumeric (CHR ''='')"
  by (simp add: alphanumeric_def)

lemma base64_shape:
  "length bs mod 3 = 2 \<Longrightarrow>
   \<exists>xs. base64 bs = xs @ [CHR ''=''] \<and> set xs \<subseteq> set base64_alphabet"
proof (induction bs rule: base64.induct)
  case (1 a b c rest)
  then have "length rest mod 3 = 2"
    by simp
  with 1 obtain xs where xs: "base64 rest = xs @ [CHR ''='']" "set xs \<subseteq> set base64_alphabet"
    by blast
  let ?ys = "[base64_char (unat a div 4),
              base64_char ((unat a mod 4) * 16 + unat b div 16),
              base64_char ((unat b mod 16) * 4 + unat c div 64),
              base64_char (unat c mod 64)] @ xs"
  have "base64 (a # b # c # rest) = ?ys @ [CHR ''='']"
    using xs(1) by simp
  moreover have "set ?ys \<subseteq> set base64_alphabet"
    using xs(2) by (simp add: base64_char_alphabet)
  ultimately show ?case
    by blast
next
  case (2 a b)
  let ?ys = "[base64_char (unat a div 4),
              base64_char ((unat a mod 4) * 16 + unat b div 16),
              base64_char ((unat b mod 16) * 4)]"
  have "base64 [a, b] = ?ys @ [CHR ''='']"
    by simp
  moreover have "set ?ys \<subseteq> set base64_alphabet"
    by (simp add: base64_char_alphabet)
  ultimately show ?case
    by blast
qed simp_all

lemma base64_char_0: "base64_char 0 = CHR ''A''"
  by (simp add: base64_char_def base64_alphabet_def)

text \<open>
  C7, as stated, fails: the generator draws 32 random bytes, whose base64 text has 44
  characters, the last one the padding \<open>=\<close>; so \<open>substring(0, 128)\<close> never cuts and the
  verifier never has 128 characters. For 32 zero bytes the base64 text is 43 times \<open>A\<close> and
  \<open>=\<close>, and the verifier is the 43 characters \<open>A\<close>.
\<close>

theorem generatePKCE_verifier_length_counterexample:
  "length bytes_00 = 32 \<and>
   fst (generatePKCE (\<lambda>v. []) bytes_00) = ''AAAAAAAAAAAAAAAAAAAAAAAAAAAAAAAAAAAAAAAAAAA'' \<and>
   length (fst (generatePKCE (\<lambda>v. []) bytes_00)) = 43"
  by (simp add: generatePKCE_def base64_char_0 alphanumeric_def)

text \<open>
  C7 (amended): for every call to the PKCE generator, the returned \<open>codeVerifier\<close>
  consists only of characters from \<open>[A-Za-z0-9]\<close> and is at most 43 characters long, never
  128; whenever the base64 text of the 32 random bytes contains neither \<open>+\<close> nor \<open>/\<close>, the
  verifier is exactly the first 43 characters of that text, so its length, 43, is between
  43 and 128. (What the generator returns when the base64 text contains \<open>+\<close> or \<open>/\<close> is
  not part of the statement beyond the alphabet and the upper bound.)
\<close>

theorem generatePKCE_codeVerifier:
  assumes "length randomBytes = 32"
  shows "(\<forall>c \<in> set (fst (generatePKCE sha256 randomBytes)). alphanumeric c) \<and>
         length (fst (generatePKCE sha256 randomBytes)) \<le> 43 \<and>
         (CHR ''+'' \<notin> set (base64 randomBytes) \<and> CHR ''/'' \<notin> set (base64 randomBytes) \<longrightarrow>
            fst (generatePKCE sha256 randomBytes) = take 43 (base64 randomBytes) \<and>
            length (fst (generatePKCE sha256 randomBytes)) = 43)"
proof -
  have "length randomBytes mod 3 = 2"
    using assms by simp
  then obtain xs where xs: "base64 randomBytes = xs @ [CHR ''='']"
    and alphabet: "set xs \<subseteq> set base64_alphabet"
    by (blast dest: base64_shape)
  have "length (base64 randomBytes) = 44"
    using assms by (simp add: base64_length)
  with xs have len: "length xs = 43"
    by simp
  have verifier: "fst (generatePKCE sha256 randomBytes) = take 128 (filter alphanumeric xs)"
    by (simp add: generatePKCE_def Let_def xs equals_not_alphanumeric)
  have "length (filter alphanumeric xs) \<le> 43"
    using len length_filter_le [of alphanumeric xs] by simp
  then have short: "length (take 128 (filter alphanumeric xs)) \<le> 43"
    by simp
  have alnum: "alphanumeric c" if "c \<in> set (take 128 (filter alphanumeric xs))" for c
    using in_set_takeD [OF that] by simp
  have exact: "take 128 (filter alphanumeric xs) = take 43 (base64 randomBytes) \<and>
               length (take 128 (filter alphanumeric xs)) = 43"
    if "CHR ''+'' \<notin> set (base64 randomBytes)" and "CHR ''/'' \<notin> set (base64 randomBytes)"
  proof -
    have "alphanumeric c" if "c \<in> set xs" for c
    proof -
      from that alphabet have "c \<in> set base64_alphabet"
        by blast
      moreover from that \<open>CHR ''+'' \<notin> set (base64 randomBytes)\<close> xs have "c \<noteq> CHR ''+''"
        by auto
      moreover from that \<open>CHR ''/'' \<notin> set (base64 randomBytes)\<close> xs have "c \<noteq> CHR ''/''"
        by auto
      ultimately show ?thesis
        by (rule base64_alphabet_alphanumeric)
    qed
    then have "filter alphanumeric xs = xs"
      by (simp add: filter_id_conv)
    with len xs show ?thesis
      by simp
  qed
  from short alnum exact show ?thesis
    unfolding verifier by blast
qed

text \<open>
  The digest plays no part in the verifier; here it is the function that returns no bytes.
\<close>

theorem generatePKCE_codeVerifier_witness:
  "length bytes_00 = 32 \<and>
   fst (generatePKCE (\<lambda>v. []) bytes_00) = take 43 (base64 bytes_00) \<and>
   length (fst (generatePKCE (\<lambda>v. []) bytes_00)) = 43 \<and>
   list_all alphanumeric (fst (generatePKCE (\<lambda>v. []) bytes_00))"
proof -
  have h: "length bytes_00 = 32"
    by simp
  have plain: "CHR ''+'' \<notin> set (base64 bytes_00) \<and> CHR ''/'' \<notin> set (base64 bytes_00)"
    by (simp add: base64_char_0)
  from generatePKCE_codeVerifier [OF h, of "\<lambda>v. []"] plain h show ?thesis
    by (simp only: list_all_iff) blast
qed

section \<open>Properties of the callback listener\<close>

lemma oauth_callback_stateStore:
  "stateStore (snd (oauth_callback env q srv)) = stateStore srv \<or>
   (\<exists>s. stateStore (snd (oauth_callback env q srv)) = (stateStore srv)(s := None))"
proof (cases "\<exists>c s d. \<not> truthy_query (error q) \<and> code q = Str c \<and> c \<noteq> [] \<and>
                state q = Str s \<and> s \<noteq> [] \<and> stateStore srv s = Some d")
  case True
  then obtain c s d where "\<not> truthy_query (error q)" "code q = Str c" "c \<noteq> []"
    "state q = Str s" "s \<noteq> []" "stateStore srv s = Some d"
    by blast
  then have "stateStore (snd (oauth_callback env q srv)) = (stateStore srv)(s := None)"
    by (cases "exchange env"; cases "write_tokens env")
       (simp_all add: oauth_callback_def getAccessTokenFromCode_def saveTokens_def Let_def)
  then show ?thesis
    by blast
next
  case False
  then have "snd (oauth_callback env q srv) = srv"
    by (cases "code q"; cases "state q")
       (auto simp add: oauth_callback_def split: option.splits)
  then show ?thesis
    by simp
qed

lemma handle_keeps:
  assumes "\<not> issues s ev"
  shows "stateStore (handle ev srv) s = None \<or> stateStore (handle ev srv) s = stateStore srv s"
proof (cases ev)
  case (Auth now s' v)
  with assms show ?thesis by (simp add: auth_def)
next
  case (Callback env q)
  with oauth_callback_stateStore [of env q srv] show ?thesis by auto
next
  case (Sweep now)
  then show ?thesis by (simp add: cleanupExpiredStates_def split: option.splits)
qed

lemma run_keeps:
  "\<forall>ev \<in> set evs. \<not> issues s ev \<Longrightarrow>
   stateStore (run evs srv) s = None \<or> stateStore (run evs srv) s = stateStore srv s"
proof (induction evs arbitrary: srv)
  case Nil
  then show ?case by simp
next
  case (Cons ev evs)
  from Cons.prems have ev: "\<not> issues s ev" and evs: "\<forall>ev \<in> set evs. \<not> issues s ev"
    by simp_all
  from Cons.IH [OF evs, of "handle ev srv"] handle_keeps [OF ev, of srv]
  show ?case by auto
qed

lemma run_absent:
  "\<forall>ev \<in> set evs. \<not> issues s ev \<Longrightarrow> stateStore srv s = None \<Longrightarrow>
   stateStore (run evs srv) s = None"
  using run_keeps [of evs s srv] by auto

lemma run_append: "run (evs1 @ evs2) srv = run evs2 (run evs1 srv)"
  by (induction evs1 arbitrary: srv) simp_all

lemma oauth_callback_unknown_state:
  assumes "\<not> truthy_query (error q)" and "code q = Str c" and "c \<noteq> []"
    and "state q = Str s" and "s \<noteq> []" and "stateStore srv s = None"
  shows "oauth_callback env q srv = (Response 500 ''Invalid or expired state parameter'', srv)"
  using assms by (simp add: oauth_callback_def)

lemma oauth_callback_consumes:
  assumes "\<not> truthy_query (error q)" and "code q = Str c" and "c \<noteq> []"
    and "state q = Str s" and "s \<noteq> []" and "stateStore srv s = Some d"
  shows "stateStore (snd (oauth_callback env q srv)) s = None \<and>
         posted (etsyApi (snd (oauth_callback env q srv))) =
           posted (etsyApi srv) @ [AuthorizationCode c (codeVerifier d)]"
  using assms
  by (cases "exchange env"; cases "write_tokens env")
     (simp_all add: oauth_callback_def getAccessTokenFromCode_def saveTokens_def
        setAccessToken_def Let_def)

subsection \<open>Single use of a state value\<close>

text \<open>
  C4: once a callback has looked a state value up successfully, and so deleted it, every
  later callback that reaches the lookup with the same state value is rejected with
  \<open>Invalid or expired state parameter\<close> and changes nothing, whatever callbacks, cleanup
  ticks and \<open>/auth\<close> requests for other state values are handled in between. (A request to
  \<open>/auth\<close> puts a fresh 128-bit random value into the store; it is assumed not to draw the
  consumed value again.)
\<close>

theorem consumed_state_is_single_use:
  assumes "\<not> truthy_query (error q)" and "code q = Str c" and "c \<noteq> []"
    and "state q = Str s" and "s \<noteq> []" and "stateStore srv s = Some d"
    and "\<forall>ev \<in> set evs. \<not> issues s ev"
    and "\<not> truthy_query (error q')" and "code q' = Str c'" and "c' \<noteq> []"
    and "state q' = Str s"
  shows "oauth_callback env' q' (run evs (snd (oauth_callback env q srv))) =
           (Response 500 ''Invalid or expired state parameter'',
            run evs (snd (oauth_callback env q srv)))"
proof -
  have "stateStore (snd (oauth_callback env q srv)) s = None"
    using oauth_callback_consumes [OF assms(1-6)] by simp
  then have "stateStore (run evs (snd (oauth_callback env q srv))) s = None"
    using assms(7) by (intro run_absent)
  with assms(8-11) assms(5) show ?thesis
    by (intro oauth_callback_unknown_state)
qed

text \<open>
  The state \<open>s1\<close> is issued, consumed by a callback, and presented again after a cleanup
  tick and a request to \<open>/auth\<close> that issues \<open>s2\<close>.
\<close>

theorem consumed_state_is_single_use_witness:
  "stateStore (auth 0 ''s1'' ''v'' server0) ''s1'' = Some \<lparr> codeVerifier = ''v'', createdAt = 0 \<rparr> \<and>
   fst (oauth_callback callback_env0 query0
          (run [Sweep 60000, Auth 61000 ''s2'' ''w'']
             (snd (oauth_callback callback_env0 query0 (auth 0 ''s1'' ''v'' server0)))))
     = Response 500 ''Invalid or expired state parameter''"
proof -
  have h1: "\<not> truthy_query (error query0)" and h2: "code query0 = Str ''abc''"
    and h3: "''abc'' \<noteq> []" and h4: "state query0 = Str ''s1''" and h5: "''s1'' \<noteq> []"
    by (simp_all add: truthy_query_def)
  have h6: "stateStore (auth 0 ''s1'' ''v'' server0) ''s1'' =
              Some \<lparr> codeVerifier = ''v'', createdAt = 0 \<rparr>"
    by (simp add: auth_def)
  have h7: "\<forall>ev \<in> set [Sweep 60000, Auth 61000 ''s2'' ''w'']. \<not> issues ''s1'' ev"
    by simp
  from consumed_state_is_single_use [OF h1 h2 h3 h4 h5 h6 h7 h1 h2 h3 h4,
         of callback_env0 callback_env0] h6
  show ?thesis
    by simp
qed

subsection \<open>A callback whose exchange fails\<close>

text \<open>
  C10: a callback that passes the checks and finds its state in the store deletes the
  entry whatever the outcome of the code exchange, and posts exactly one exchange request.
  When the exchange fails, the answer is \<open>Token exchange failed\<close>, and replaying the same
  callback (same code and state), at once or after other events that do not issue the state
  again, is rejected with \<open>Invalid or expired state parameter\<close> and leaves the server as it
  was: no second exchange is attempted.
\<close>

theorem failed_exchange_consumes_state:
  assumes "\<not> truthy_query (error q)" and "code q = Str c" and "c \<noteq> []"
    and "state q = Str s" and "s \<noteq> []" and "stateStore srv s = Some d"
  shows "(\<forall>env. stateStore (snd (oauth_callback env q srv)) s = None \<and>
                posted (etsyApi (snd (oauth_callback env q srv))) =
                  posted (etsyApi srv) @ [AuthorizationCode c (codeVerifier d)]) \<and>
         (\<forall>env env' evs.
            exchange env = None \<longrightarrow> (\<forall>ev \<in> set evs. \<not> issues s ev) \<longrightarrow>
            fst (oauth_callback env q srv) = Response 500 ''Token exchange failed'' \<and>
            oauth_callback env' q (run evs (snd (oauth_callback env q srv))) =
              (Response 500 ''Invalid or expired state parameter'',
               run evs (snd (oauth_callback env q srv))))"
proof -
  have gone: "stateStore (snd (oauth_callback env q srv)) s = None \<and>
              posted (etsyApi (snd (oauth_callback env q srv))) =
                posted (etsyApi srv) @ [AuthorizationCode c (codeVerifier d)]" for env
    using assms by (rule oauth_callback_consumes)
  have failed: "fst (oauth_callback env q srv) = Response 500 ''Token exchange failed''"
    if "exchange env = None" for env
    using assms that by (simp add: oauth_callback_def getAccessTokenFromCode_def Let_def)
  have replay: "oauth_callback env' q (run evs (snd (oauth_callback env q srv))) =
              (Response 500 ''Invalid or expired state parameter'',
               run evs (snd (oauth_callback env q srv)))"
    if "\<forall>ev \<in> set evs. \<not> issues s ev" for env env' evs
  proof -
    from gone [of env] have "stateStore (snd (oauth_callback env q srv)) s = None"
      by simp
    with that have "stateStore (run evs (snd (oauth_callback env q srv))) s = None"
      by (intro run_absent)
    with assms(1-5) show ?thesis
      by (intro oauth_callback_unknown_state)
  qed
  from gone failed replay show ?thesis
    by blast
qed

text \<open>
  The state \<open>s1\<close> is issued, the exchange of the first callback fails, and the callback is
  replayed: one exchange request has been posted in all.
\<close>

theorem failed_exchange_consumes_state_witness:
  "stateStore (auth 0 ''s1'' ''v'' server0) ''s1'' = Some \<lparr> codeVerifier = ''v'', createdAt = 0 \<rparr> \<and>
   exchange (callback_env0\<lparr>exchange := None\<rparr>) = None \<and>
   fst (oauth_callback (callback_env0\<lparr>exchange := None\<rparr>) query0 (auth 0 ''s1'' ''v'' server0))
     = Response 500 ''Token exchange failed'' \<and>
   fst (oauth_callback callback_env0 query0
          (snd (oauth_callback (callback_env0\<lparr>exchange := None\<rparr>) query0
                  (auth 0 ''s1'' ''v'' server0))))
     = Response 500 ''Invalid or expired state parameter'' \<and>
   posted (etsyApi (snd (oauth_callback (callback_env0\<lparr>exchange := None\<rparr>) query0
                           (auth 0 ''s1'' ''v'' server0))))
     = [AuthorizationCode ''abc'' ''v'']"
proof -
  have h1: "\<not> truthy_query (error query0)" and h2: "code query0 = Str ''abc''"
    and h3: "''abc'' \<noteq> []" and h4: "state query0 = Str ''s1''" and h5: "''s1'' \<noteq> []"
    by (simp_all add: truthy_query_def)
  have h6: "stateStore (auth 0 ''s1'' ''v'' server0) ''s1'' =
              Some \<lparr> codeVerifier = ''v'', createdAt = 0 \<rparr>"
    by (simp add: auth_def)
  have h7: "exchange (callback_env0\<lparr>exchange := None\<rparr>) = None"
    by simp
  have h8: "posted (etsyApi (auth 0 ''s1'' ''v'' server0)) = []"
    by (simp add: auth_def)
  note main = failed_exchange_consumes_state [OF h1 h2 h3 h4 h5 h6]
  have h9: "\<forall>ev \<in> set []. \<not> issues ''s1'' ev"
    by simp
  from main have first:
    "posted (etsyApi (snd (oauth_callback (callback_env0\<lparr>exchange := None\<rparr>) query0
                             (auth 0 ''s1'' ''v'' server0)))) =
       posted (etsyApi (auth 0 ''s1'' ''v'' server0)) @
         [AuthorizationCode ''abc'' (codeVerifier \<lparr> codeVerifier = ''v'', createdAt = 0 \<rparr>)]"
    by blast
  from main h7 h9 have second:
    "fst (oauth_callback (callback_env0\<lparr>exchange := None\<rparr>) query0
            (auth 0 ''s1'' ''v'' server0)) = Response 500 ''Token exchange failed'' \<and>
     oauth_callback callback_env0 query0
       (run [] (snd (oauth_callback (callback_env0\<lparr>exchange := None\<rparr>) query0
                       (auth 0 ''s1'' ''v'' server0)))) =
       (Response 500 ''Invalid or expired state parameter'',
        run [] (snd (oauth_callback (callback_env0\<lparr>exchange := None\<rparr>) query0
                       (auth 0 ''s1'' ''v'' server0))))"
    by blast
  from first second h6 h7 h8 show ?thesis
    by simp
qed

subsection \<open>Expiry of a pending state\<close>

text \<open>
  C5, as stated, fails: an entry leaves the store only through a callback or through a
  cleanup tick with \<open>now - createdAt > stateTTL\<close>, and the lookup of the callback does not
  read the clock. The entry created at time 0 survives the tick at 300000 (\<open>= 0 + TTL\<close>), so
  it is still in the store at every time before the next tick at 360000, and a callback
  arriving at 359999 is accepted.
\<close>

theorem state_present_after_ttl_counterexample:
  "stateStore
     (run [Auth 0 ''s1'' ''v'', Sweep 60000, Sweep 120000, Sweep 180000, Sweep 240000,
           Sweep 300000] server0) ''s1''
     = Some \<lparr> codeVerifier = ''v'', createdAt = 0 \<rparr> \<and>
   fst (oauth_callback (callback_env0\<lparr>now_save := 359999\<rparr>) query0
          (run [Auth 0 ''s1'' ''v'', Sweep 60000, Sweep 120000, Sweep 180000, Sweep 240000,
                Sweep 300000] server0))
     = Response 200 ''Authentication Successful!''"
  by (simp add: auth_def cleanupExpiredStates_def stateTTL_def oauth_callback_def
        truthy_query_def getAccessTokenFromCode_def saveTokens_def truthy_num_def)

text \<open>
  C5 (amended): a pending state inserted at time \<open>T\<close> is absent from the store after any
  cleanup tick that runs at a time \<open>now\<close> with \<open>now - T > TTL\<close> (five minutes), and stays
  absent, whether or not a callback consumed it before, as long as \<open>/auth\<close> does not issue
  the same state value again.
\<close>

theorem state_absent_after_late_sweep:
  assumes "\<forall>ev \<in> set evs1. \<not> issues s ev" and "\<forall>ev \<in> set evs2. \<not> issues s ev"
    and "now - T > stateTTL"
  shows "stateStore (run (Auth T s v # evs1 @ Sweep now # evs2) srv) s = None"
proof -
  let ?a = "handle (Auth T s v) srv"
  have put: "stateStore ?a s = Some \<lparr> codeVerifier = v, createdAt = T \<rparr>"
    by (simp add: auth_def)
  from run_keeps [OF assms(1), of ?a] put
  have "stateStore (run evs1 ?a) s = None \<or>
        stateStore (run evs1 ?a) s = Some \<lparr> codeVerifier = v, createdAt = T \<rparr>"
    by simp
  then have "stateStore (handle (Sweep now) (run evs1 ?a)) s = None"
    using assms(3) by (auto simp add: cleanupExpiredStates_def)
  then have "stateStore (run evs2 (handle (Sweep now) (run evs1 ?a))) s = None"
    using assms(2) by (intro run_absent)
  then show ?thesis
    by (simp add: run_append)
qed

text \<open>
  The state issued at time 0 is gone after the tick at 300001.
\<close>

theorem state_absent_after_late_sweep_witness:
  "300001 - 0 > stateTTL \<and>
   stateStore (run (Auth 0 ''s1'' ''v'' # [Sweep 60000] @ Sweep 300001 #
                      [Callback callback_env0 query0]) server0) ''s1'' = None"
proof -
  have h1: "\<forall>ev \<in> set [Sweep 60000]. \<not> issues ''s1'' ev"
    and h2: "\<forall>ev \<in> set [Callback callback_env0 query0]. \<not> issues ''s1'' ev"
    and h3: "300001 - 0 > stateTTL"
    by (simp_all add: stateTTL_def)
  from state_absent_after_late_sweep [OF h1 h2 h3, of "''v''" server0] h3
  show ?thesis
    by blast
qed

end
